theory Spec2Isabelle
  imports Main
begin

section \<open>Python values, exceptions and log records\<close>

text \<open>
  The values a decoded webhook payload is made of (what \<^verbatim>\<open>json.loads\<close> returns, but for
  floating-point numbers, which no function modelled here inspects). A dictionary is an
  association list with string keys; lookups take the first binding of a key.
\<close>

datatype pyval =
    PyNone
  | PyBool bool
  | PyInt int
  | PyStr string
  | PyList "pyval list"
  | PyDict "(string \<times> pyval) list"

type_synonym pydict = "(string \<times> pyval) list"

text \<open>
  The exception classes the webhook path can meet. \<open>ValidationError\<close> is pydantic's, a
  subclass of \<open>ValueError\<close>; \<open>SignatureVerificationError\<close> is
  \<^verbatim>\<open>stripe.error.SignatureVerificationError\<close>, which is not. \<open>OtherException\<close> stands for
  any further class below \<open>Exception\<close> outside these families, \<open>OtherBaseException\<close> for a
  class below \<open>BaseException\<close> only (\<open>KeyboardInterrupt\<close>, \<open>SystemExit\<close>). An exception
  carries its class and its message (\<^verbatim>\<open>str(e)\<close>); the messages of the exceptions raised
  by the interpreter and by pydantic are shortened.
\<close>

datatype exn_class =
    ValueError
  | ValidationError
  | SignatureVerificationError
  | KeyError
  | TypeError
  | OtherException string
  | OtherBaseException string

datatype exn = Exn exn_class string

fun exn_str :: "exn \<Rightarrow> string" where
  "exn_str (Exn c m) = m"

fun isinstance_ValueError :: "exn \<Rightarrow> bool" where
  "isinstance_ValueError (Exn ValueError m) = True"
| "isinstance_ValueError (Exn ValidationError m) = True"
| "isinstance_ValueError (Exn c m) = False"

fun isinstance_SignatureVerificationError :: "exn \<Rightarrow> bool" where
  "isinstance_SignatureVerificationError (Exn SignatureVerificationError m) = True"
| "isinstance_SignatureVerificationError (Exn c m) = False"

fun isinstance_Exception :: "exn \<Rightarrow> bool" where
  "isinstance_Exception (Exn (OtherBaseException n) m) = False"
| "isinstance_Exception (Exn c m) = True"

text \<open>
  A log record: the logger method called, the message template (each \<open>{}\<close> is a
  formatted field of the source's f-string) and the values formatted into it.
\<close>

datatype log_method = LogDebug | LogInfo | LogWarning | LogError | LogException

type_synonym log_record = "log_method \<times> string \<times> pyval list"

text \<open>\<^verbatim>\<open>d[k]\<close> and \<^verbatim>\<open>d.get(k, default)\<close> on a dictionary.\<close>

definition dict_getitem :: "pydict \<Rightarrow> string \<Rightarrow> exn + pyval" where
  "dict_getitem d k = (case map_of d k of None \<Rightarrow> Inl (Exn KeyError k) | Some v \<Rightarrow> Inr v)"

definition dict_get :: "pydict \<Rightarrow> string \<Rightarrow> pyval \<Rightarrow> pyval" where
  "dict_get d k dflt = (case map_of d k of None \<Rightarrow> dflt | Some v \<Rightarrow> v)"


section \<open>models.py: StripeEvent\<close>

record StripeEvent =
  event_id :: string
  event_type :: string
  event_data :: pydict
  event_api_version :: "string option"

text \<open>
  Field validation as pydantic (version 2, lax mode) does it for the declared types
  \<^verbatim>\<open>str\<close>, \<^verbatim>\<open>Dict[str, Any]\<close> and \<^verbatim>\<open>Optional[str] = None\<close>: the argument is the value
  passed for the field, if any; the result is the validated field, or \<open>None\<close> when
  validation fails. Numbers are not coerced to strings.
\<close>

fun validate_str :: "pyval option \<Rightarrow> string option" where
  "validate_str (Some (PyStr s)) = Some s"
| "validate_str v = None"

fun validate_dict :: "pyval option \<Rightarrow> pydict option" where
  "validate_dict (Some (PyDict d)) = Some d"
| "validate_dict v = None"

fun validate_optional_str :: "pyval option \<Rightarrow> string option option" where
  "validate_optional_str None = Some None"
| "validate_optional_str (Some PyNone) = Some None"
| "validate_optional_str (Some (PyStr s)) = Some (Some s)"
| "validate_optional_str v = None"

text \<open>
  \<^verbatim>\<open>StripeEvent(**event)\<close>: the keyword arguments are the items of the decoded event;
  keys that name no field are ignored, and any field that fails validation raises
  pydantic's \<open>ValidationError\<close>.
\<close>

definition StripeEvent_init :: "pydict \<Rightarrow> exn + StripeEvent" where
  "StripeEvent_init kwargs =
     (case validate_str (map_of kwargs ''id'') of
        None \<Rightarrow> Inl (Exn ValidationError ''StripeEvent'')
      | Some i \<Rightarrow>
     (case validate_str (map_of kwargs ''type'') of
        None \<Rightarrow> Inl (Exn ValidationError ''StripeEvent'')
      | Some t \<Rightarrow>
     (case validate_dict (map_of kwargs ''data'') of
        None \<Rightarrow> Inl (Exn ValidationError ''StripeEvent'')
      | Some d \<Rightarrow>
     (case validate_optional_str (map_of kwargs ''api_version'') of
        None \<Rightarrow> Inl (Exn ValidationError ''StripeEvent'')
      | Some a \<Rightarrow>
          Inr \<lparr>event_id = i, event_type = t, event_data = d, event_api_version = a\<rparr>))))"

text \<open>The property \<^verbatim>\<open>event_object\<close>: \<^verbatim>\<open>self.data.get("object", {})\<close>.\<close>

definition event_object :: "StripeEvent \<Rightarrow> pyval" where
  "event_object self = dict_get (event_data self) ''object'' (PyDict [])"


section \<open>The value bound to \<^verbatim>\<open>handlers\<close> during dispatch\<close>

text \<open>
  The registry maps an event name to one function object (type \<open>'f\<close>), so
  \<^verbatim>\<open>registry.get(event_type, [])\<close> is either that function or the fresh empty list given
  as default. A function object is truthy, defines neither \<^verbatim>\<open>__iadd__\<close>, \<^verbatim>\<open>__add__\<close> nor
  \<^verbatim>\<open>__radd__\<close>, and is not iterable; \<^verbatim>\<open>list.__iadd__\<close> extends the list by iterating its
  argument.
\<close>

datatype 'f handlers_val = Function 'f | HList "'f list"

definition registry_get :: "(string \<rightharpoonup> 'f) \<Rightarrow> string \<Rightarrow> 'f handlers_val \<Rightarrow> 'f handlers_val" where
  "registry_get reg k dflt = (case reg k of None \<Rightarrow> dflt | Some f \<Rightarrow> Function f)"

fun truthy :: "'f handlers_val \<Rightarrow> bool" where
  "truthy (Function f) = True"
| "truthy (HList hs) = (hs \<noteq> [])"

fun iadd :: "'f handlers_val \<Rightarrow> 'f handlers_val \<Rightarrow> exn + 'f handlers_val" where
  "iadd (HList xs) (HList ys) = Inr (HList (xs @ ys))"
| "iadd (HList xs) (Function g) = Inl (Exn TypeError ''function object is not iterable'')"
| "iadd (Function f) (HList ys) =
     Inl (Exn TypeError ''unsupported operand type(s) for +=: function and list'')"
| "iadd (Function f) (Function g) =
     Inl (Exn TypeError ''unsupported operand type(s) for +=: function and function'')"

fun iter :: "'f handlers_val \<Rightarrow> exn + 'f list" where
  "iter (HList xs) = Inr xs"
| "iter (Function f) = Inl (Exn TypeError ''function object is not iterable'')"


section \<open>The dispatch loop\<close>

text \<open>
  The loop \<^verbatim>\<open>for handler in handlers: try: handler(event_model.event_object) ...\<close>, the
  same text in \<^verbatim>\<open>StripeHandler.process_webhook\<close> and
  \<^verbatim>\<open>StripeManager.process_webhook_payload\<close>. A callback is arbitrary code: \<open>call f obj s\<close>
  gives what calling \<open>f\<close> on \<open>obj\<close> does to the state \<open>s\<close> of the object that dispatches,
  with the exception it raises, if any; \<open>name f\<close> is \<^verbatim>\<open>f.__name__\<close>; \<open>log\<close> appends a
  record to that object's logger. \<^verbatim>\<open>except Exception\<close> does not catch an exception that is
  below \<open>BaseException\<close> only: it leaves the loop. The third component of the result
  lists the calls made, in order.
\<close>

fun run_handlers ::
  "(log_record \<Rightarrow> 's \<Rightarrow> 's) \<Rightarrow> ('f \<Rightarrow> pyval \<Rightarrow> 's \<Rightarrow> exn option \<times> 's) \<Rightarrow> ('f \<Rightarrow> string) \<Rightarrow>
   string \<Rightarrow> pyval \<Rightarrow> 'f list \<Rightarrow> 's \<Rightarrow> exn option \<times> 's \<times> ('f \<times> pyval) list" where
  "run_handlers log call name etype obj [] s = (None, s, [])"
| "run_handlers log call name etype obj (handler # rest) s =
     (case call handler obj s of
        (None, s1) \<Rightarrow>
          (case run_handlers log call name etype obj rest
                  (log (LogDebug, ''Handler {} executed successfully for {}'',
                        [PyStr (name handler), PyStr etype]) s1) of
             (r, s2, calls) \<Rightarrow> (r, s2, (handler, obj) # calls))
      | (Some e, s1) \<Rightarrow>
          if isinstance_Exception e then
            (case run_handlers log call name etype obj rest
                    (log (LogException, ''Error in handler {} for event {}: {}'',
                          [PyStr (name handler), PyStr etype, PyStr (exn_str e)]) s1) of
               (r, s2, calls) \<Rightarrow> (r, s2, (handler, obj) # calls))
          else (Some e, s1, [(handler, obj)]))"


section \<open>handler.py: StripeHandler\<close>

record 'f StripeHandler =
  api_key :: string
  logger :: "log_record list"
  webhook_secret :: "string option"
  event_handlers :: "string \<rightharpoonup> 'f"

definition StripeHandler_init :: "string \<Rightarrow> string option \<Rightarrow> 'f StripeHandler" where
  "StripeHandler_init key secret =
     \<lparr>api_key = key, logger = [], webhook_secret = secret, event_handlers = Map.empty\<rparr>"

definition handler_log :: "log_record \<Rightarrow> 'f StripeHandler \<Rightarrow> 'f StripeHandler" where
  "handler_log r self = self\<lparr>logger := logger self @ [r]\<rparr>"

definition add_event_handler :: "'f StripeHandler \<Rightarrow> string \<Rightarrow> 'f \<Rightarrow> 'f StripeHandler" where
  "add_event_handler self event_name handler =
     self\<lparr>event_handlers := (event_handlers self)(event_name \<mapsto> handler)\<rparr>"

definition remove_event_handler :: "'f StripeHandler \<Rightarrow> string \<Rightarrow> 'f StripeHandler" where
  "remove_event_handler self event_name =
     (if event_handlers self event_name \<noteq> None
      then self\<lparr>event_handlers := (event_handlers self)(event_name := None)\<rparr>
      else self)"

text \<open>
  \<^verbatim>\<open>process_webhook\<close>. \<open>construct_event\<close> is \<^verbatim>\<open>stripe.Webhook.construct_event\<close>, the
  library's verifier and decoder: it raises or returns the decoded event. The first
  \<open>case\<close> is the \<^verbatim>\<open>try\<close> block, whose log line subscripts the event with \<^verbatim>\<open>'type'\<close> and
  \<^verbatim>\<open>'id'\<close>; its \<^verbatim>\<open>except\<close> clause logs and re-raises a \<open>ValueError\<close> or a
  \<open>SignatureVerificationError\<close>, and any other exception leaves the function as it is.
  The result is the exception raised or the event returned, the handler object
  afterwards, and the callbacks called.
\<close>

definition process_webhook ::
  "(string \<Rightarrow> string \<Rightarrow> string option \<Rightarrow> exn + pydict) \<Rightarrow>
   ('f \<Rightarrow> pyval \<Rightarrow> 'f StripeHandler \<Rightarrow> exn option \<times> 'f StripeHandler) \<Rightarrow> ('f \<Rightarrow> string) \<Rightarrow>
   'f StripeHandler \<Rightarrow> string \<Rightarrow> string \<Rightarrow>
   (exn + StripeEvent) \<times> 'f StripeHandler \<times> ('f \<times> pyval) list" where
  "process_webhook construct_event call name self payload sig_header =
     (case
        (case construct_event payload sig_header (webhook_secret self) of
           Inl e \<Rightarrow> Inl e
         | Inr event \<Rightarrow>
             (case dict_getitem event ''type'' of
                Inl e \<Rightarrow> Inl e
              | Inr t \<Rightarrow>
                  (case dict_getitem event ''id'' of
                     Inl e \<Rightarrow> Inl e
                   | Inr i \<Rightarrow>
                       Inr (event,
                            handler_log (LogInfo, ''Received Stripe event: {} [{}]'', [t, i]) self))))
      of
        Inl e \<Rightarrow>
          if isinstance_ValueError e \<or> isinstance_SignatureVerificationError e then
            (Inl e,
             handler_log (LogError, ''Webhook signature verification failed: {}'',
                          [PyStr (exn_str e)]) self,
             [])
          else (Inl e, self, [])
      | Inr (event, self1) \<Rightarrow>
          (case StripeEvent_init event of
             Inl e \<Rightarrow> (Inl e, self1, [])
           | Inr event_model \<Rightarrow>
               (let etype = event_type event_model;
                    handlers = registry_get (event_handlers self1) etype (HList []);
                    self2 = (if \<not> truthy handlers
                             then handler_log (LogWarning, ''No handlers registered for event: {}'',
                                               [PyStr etype]) self1
                             else self1)
                in case iadd handlers (registry_get (event_handlers self2) ''*'' (HList [])) of
                     Inl e \<Rightarrow> (Inl e, self2, [])
                   | Inr handlers' \<Rightarrow>
                       (case iter handlers' of
                          Inl e \<Rightarrow> (Inl e, self2, [])
                        | Inr hs \<Rightarrow>
                            (case run_handlers handler_log call name etype
                                    (event_object event_model) hs self2 of
                               (Some e, self3, calls) \<Rightarrow> (Inl e, self3, calls)
                             | (None, self3, calls) \<Rightarrow> (Inr event_model, self3, calls))))))"


section \<open>manager.py: StripeManager\<close>

record 'f StripeManager =
  manager_api_key :: string
  manager_logger :: "log_record list"
  webhook_handlers :: "string \<rightharpoonup> 'f"

definition StripeManager_init :: "string \<Rightarrow> 'f StripeManager" where
  "StripeManager_init key =
     \<lparr>manager_api_key = key, manager_logger = [], webhook_handlers = Map.empty\<rparr>"

definition manager_log :: "log_record \<Rightarrow> 'f StripeManager \<Rightarrow> 'f StripeManager" where
  "manager_log r self = self\<lparr>manager_logger := manager_logger self @ [r]\<rparr>"

definition add_webhook_handler :: "'f StripeManager \<Rightarrow> string \<Rightarrow> 'f \<Rightarrow> 'f StripeManager" where
  "add_webhook_handler self event_name handler =
     manager_log (LogInfo, ''Added webhook handler for event: {}'', [PyStr event_name])
       (self\<lparr>webhook_handlers := (webhook_handlers self)(event_name \<mapsto> handler)\<rparr>)"

definition remove_webhook_handler :: "'f StripeManager \<Rightarrow> string \<Rightarrow> 'f StripeManager" where
  "remove_webhook_handler self event_name =
     (if webhook_handlers self event_name \<noteq> None
      then manager_log (LogInfo, ''Removed webhook handler for event: {}'', [PyStr event_name])
             (self\<lparr>webhook_handlers := (webhook_handlers self)(event_name := None)\<rparr>)
      else manager_log (LogWarning, ''No webhook handler found for event: {}'',
                        [PyStr event_name]) self)"

text \<open>
  \<^verbatim>\<open>process_webhook_payload\<close>: as \<open>process_webhook\<close>, with the secret an argument and one
  \<^verbatim>\<open>except\<close> clause for each of the two exception classes, \<open>ValueError\<close> first.
\<close>

definition process_webhook_payload ::
  "(string \<Rightarrow> string \<Rightarrow> string option \<Rightarrow> exn + pydict) \<Rightarrow>
   ('f \<Rightarrow> pyval \<Rightarrow> 'f StripeManager \<Rightarrow> exn option \<times> 'f StripeManager) \<Rightarrow> ('f \<Rightarrow> string) \<Rightarrow>
   'f StripeManager \<Rightarrow> string \<Rightarrow> string \<Rightarrow> string \<Rightarrow>
   (exn + StripeEvent) \<times> 'f StripeManager \<times> ('f \<times> pyval) list" where
  "process_webhook_payload construct_event call name self payload sig_header secret =
     (case
        (case construct_event payload sig_header (Some secret) of
           Inl e \<Rightarrow> Inl e
         | Inr event \<Rightarrow>
             (case dict_getitem event ''type'' of
                Inl e \<Rightarrow> Inl e
              | Inr t \<Rightarrow>
                  (case dict_getitem event ''id'' of
                     Inl e \<Rightarrow> Inl e
                   | Inr i \<Rightarrow>
                       Inr (event,
                            manager_log (LogInfo, ''Received Stripe event: {} [{}]'', [t, i]) self))))
      of
        Inl e \<Rightarrow>
          if isinstance_ValueError e then
            (Inl e,
             manager_log (LogError, ''Webhook payload parsing failed: {}'',
                          [PyStr (exn_str e)]) self,
             [])
          else if isinstance_SignatureVerificationError e then
            (Inl e,
             manager_log (LogError, ''Webhook signature verification failed: {}'',
                          [PyStr (exn_str e)]) self,
             [])
          else (Inl e, self, [])
      | Inr (event, self1) \<Rightarrow>
          (case StripeEvent_init event of
             Inl e \<Rightarrow> (Inl e, self1, [])
           | Inr event_model \<Rightarrow>
               (let etype = event_type event_model;
                    handlers = registry_get (webhook_handlers self1) etype (HList []);
                    self2 = (if \<not> truthy handlers
                             then manager_log (LogWarning, ''No handlers registered for event: {}'',
                                               [PyStr etype]) self1
                             else self1)
                in case iadd handlers (registry_get (webhook_handlers self2) ''*'' (HList [])) of
                     Inl e \<Rightarrow> (Inl e, self2, [])
                   | Inr handlers' \<Rightarrow>
                       (case iter handlers' of
                          Inl e \<Rightarrow> (Inl e, self2, [])
                        | Inr hs \<Rightarrow>
                            (case run_handlers manager_log call name etype
                                    (event_object event_model) hs self2 of
                               (Some e, self3, calls) \<Rightarrow> (Inl e, self3, calls)
                             | (None, self3, calls) \<Rightarrow> (Inr event_model, self3, calls))))))"


section \<open>Scenarios\<close>

text \<open>
  The objects of the repository's tests (\<^verbatim>\<open>tests/test_core.py\<close>), with callbacks named by
  strings, and stand-ins for the library's verifier: \<open>accepts event\<close> verifies every
  delivery and decodes it to \<open>event\<close>, \<open>rejects\<close> finds no matching signature. The callback
  behaviour \<open>returns\<close> returns without touching the dispatching object; under
  \<open>raises_in bad\<close> the callbacks listed in \<open>bad\<close> raise a \<open>RuntimeError\<close> instead.
\<close>

definition test_handler :: "string StripeHandler" where
  "test_handler = StripeHandler_init ''sk_test_123'' (Some ''whsec_123'')"

definition test_manager :: "string StripeManager" where
  "test_manager = StripeManager_init ''sk_test_123''"

definition test_event :: pydict where
  "test_event =
     [(''id'', PyStr ''evt_123''),
      (''type'', PyStr ''payment_intent.succeeded''),
      (''data'', PyDict [(''object'', PyDict [(''id'', PyStr ''pi_123'')])])]"

definition test_event_model :: StripeEvent where
  "test_event_model =
     \<lparr>event_id = ''evt_123'', event_type = ''payment_intent.succeeded'',
      event_data = [(''object'', PyDict [(''id'', PyStr ''pi_123'')])],
      event_api_version = None\<rparr>"

definition accepts :: "pydict \<Rightarrow> string \<Rightarrow> string \<Rightarrow> string option \<Rightarrow> exn + pydict" where
  "accepts event payload sig_header secret = Inr event"

definition rejects :: "string \<Rightarrow> string \<Rightarrow> string option \<Rightarrow> exn + pydict" where
  "rejects payload sig_header secret =
     Inl (Exn SignatureVerificationError ''No signatures found matching the expected signature'')"

definition returns :: "string \<Rightarrow> pyval \<Rightarrow> 's \<Rightarrow> exn option \<times> 's" where
  "returns f obj s = (None, s)"

definition raises_in :: "string list \<Rightarrow> string \<Rightarrow> pyval \<Rightarrow> 's \<Rightarrow> exn option \<times> 's" where
  "raises_in bad f obj s =
     (if f \<in> set bad then (Some (Exn (OtherException ''RuntimeError'') ''boom''), s)
      else (None, s))"


section \<open>Facts about the model\<close>

lemma StripeEvent_init_Inr:
  assumes "StripeEvent_init ev = Inr em"
  shows "dict_getitem ev ''type'' = Inr (PyStr (event_type em))"
    and "dict_getitem ev ''id'' = Inr (PyStr (event_id em))"
    and "map_of ev ''data'' = Some (PyDict (event_data em))"
  using assms
  by (auto simp: StripeEvent_init_def dict_getitem_def
      split: option.splits elim!: validate_str.elims validate_dict.elims)

text \<open>
  The wildcard append succeeds only when neither the event's type nor the wildcard is
  registered, and then yields the empty list.
\<close>

lemma iadd_registry_get_Inr:
  assumes "iadd (registry_get reg t (HList [])) (registry_get reg w (HList [])) = Inr v"
  shows "reg t = None \<and> reg w = None \<and> v = HList []"
  using assms by (auto simp: registry_get_def split: option.splits)

lemma iadd_registry_get_Inl:
  assumes "reg t \<noteq> None \<or> reg w \<noteq> None"
  shows "\<exists>m. iadd (registry_get reg t (HList [])) (registry_get reg w (HList [])) =
           Inl (Exn TypeError m)"
  using assms by (auto simp: registry_get_def split: option.splits)

lemma event_handlers_handler_log [simp]:
  "event_handlers (handler_log r self) = event_handlers self"
  by (simp add: handler_log_def)

lemma webhook_handlers_manager_log [simp]:
  "webhook_handlers (manager_log r self) = webhook_handlers self"
  by (simp add: manager_log_def)

lemma process_webhook_calls:
  "snd (snd (process_webhook construct_event call name self payload sig_header)) = []"
  by (auto simp: process_webhook_def Let_def
      split: sum.splits prod.splits option.splits dest!: iadd_registry_get_Inr)

lemma process_webhook_registry:
  "event_handlers (fst (snd (process_webhook construct_event call name self payload sig_header)))
     = event_handlers self"
  by (auto simp: process_webhook_def Let_def
      split: sum.splits prod.splits option.splits dest!: iadd_registry_get_Inr)

lemma process_webhook_payload_calls:
  "snd (snd (process_webhook_payload construct_event call name self payload sig_header secret))
     = []"
  by (auto simp: process_webhook_payload_def Let_def
      split: sum.splits prod.splits option.splits dest!: iadd_registry_get_Inr)

lemma process_webhook_payload_registry:
  "webhook_handlers
     (fst (snd (process_webhook_payload construct_event call name self payload sig_header secret)))
     = webhook_handlers self"
  by (auto simp: process_webhook_payload_def Let_def
      split: sum.splits prod.splits option.splits dest!: iadd_registry_get_Inr)

lemma signature_error_not_ValueError:
  "isinstance_SignatureVerificationError e \<Longrightarrow> \<not> isinstance_ValueError e"
  by (cases e rule: isinstance_SignatureVerificationError.cases) simp_all

lemma process_webhook_rejects_signature:
  assumes "construct_event payload sig_header (webhook_secret self) = Inl e"
    and "isinstance_SignatureVerificationError e"
  shows "process_webhook construct_event call name self payload sig_header =
           (Inl e,
            handler_log (LogError, ''Webhook signature verification failed: {}'',
                         [PyStr (exn_str e)]) self,
            [])"
  using assms by (simp add: process_webhook_def)

lemma process_webhook_payload_rejects_signature:
  assumes "construct_event payload sig_header (Some secret) = Inl e"
    and "isinstance_SignatureVerificationError e"
  shows "process_webhook_payload construct_event call name mgr payload sig_header secret =
           (Inl e,
            manager_log (LogError, ''Webhook signature verification failed: {}'',
                         [PyStr (exn_str e)]) mgr,
            [])"
  using assms signature_error_not_ValueError [of e]
  by (simp add: process_webhook_payload_def)

lemma process_webhook_TypeError:
  assumes "construct_event payload sig_header (webhook_secret self) = Inr event"
    and "StripeEvent_init event = Inr event_model"
    and "event_handlers self (event_type event_model) \<noteq> None \<or>
         event_handlers self ''*'' \<noteq> None"
  shows "\<exists>m self'. process_webhook construct_event call name self payload sig_header =
           (Inl (Exn TypeError m), self', [])"
  using assms StripeEvent_init_Inr(1,2) [OF assms(2)]
  by (auto simp: process_webhook_def Let_def registry_get_def split: option.splits)

lemma process_webhook_payload_TypeError:
  assumes "construct_event payload sig_header (Some secret) = Inr event"
    and "StripeEvent_init event = Inr event_model"
    and "webhook_handlers mgr (event_type event_model) \<noteq> None \<or>
         webhook_handlers mgr ''*'' \<noteq> None"
  shows "\<exists>m mgr'. process_webhook_payload construct_event call name mgr payload sig_header secret =
           (Inl (Exn TypeError m), mgr', [])"
  using assms StripeEvent_init_Inr(1,2) [OF assms(2)]
  by (auto simp: process_webhook_payload_def Let_def registry_get_def split: option.splits)

lemma process_webhook_no_handlers:
  assumes "construct_event payload sig_header (webhook_secret self) = Inr event"
    and "StripeEvent_init event = Inr event_model"
    and "event_handlers self (event_type event_model) = None"
    and "event_handlers self ''*'' = None"
  shows "process_webhook construct_event call name self payload sig_header =
           (Inr event_model,
            handler_log (LogWarning, ''No handlers registered for event: {}'',
                         [PyStr (event_type event_model)])
              (handler_log (LogInfo, ''Received Stripe event: {} [{}]'',
                            [PyStr (event_type event_model), PyStr (event_id event_model)]) self),
            [])"
  using assms StripeEvent_init_Inr(1,2) [OF assms(2)]
  by (simp add: process_webhook_def Let_def registry_get_def)

lemma process_webhook_payload_no_handlers:
  assumes "construct_event payload sig_header (Some secret) = Inr event"
    and "StripeEvent_init event = Inr event_model"
    and "webhook_handlers mgr (event_type event_model) = None"
    and "webhook_handlers mgr ''*'' = None"
  shows "process_webhook_payload construct_event call name mgr payload sig_header secret =
           (Inr event_model,
            manager_log (LogWarning, ''No handlers registered for event: {}'',
                         [PyStr (event_type event_model)])
              (manager_log (LogInfo, ''Received Stripe event: {} [{}]'',
                            [PyStr (event_type event_model), PyStr (event_id event_model)]) mgr),
            [])"
  using assms StripeEvent_init_Inr(1,2) [OF assms(2)]
  by (simp add: process_webhook_payload_def Let_def registry_get_def)

text \<open>
  The loop by itself isolates its callbacks: when every exception a callback raises is
  an instance of \<open>Exception\<close>, the loop calls every callback of the list, in order, each
  with the event object, and raises nothing.
\<close>

lemma run_handlers_isolates:
  assumes "\<And>h s e. h \<in> set hs \<Longrightarrow> fst (call h obj s) = Some e \<Longrightarrow> isinstance_Exception e"
  shows "fst (run_handlers log call name etype obj hs s) = None
         \<and> snd (snd (run_handlers log call name etype obj hs s)) = map (\<lambda>h. (h, obj)) hs"
  using assms
proof (induction hs arbitrary: s)
  case Nil
  show ?case by simp
next
  case (Cons h hs)
  obtain r s1 where c: "call h obj s = (r, s1)"
    by (cases "call h obj s")
  have ih: "fst (run_handlers log call name etype obj hs s') = None
         \<and> snd (snd (run_handlers log call name etype obj hs s')) = map (\<lambda>h. (h, obj)) hs" for s'
    using Cons.IH Cons.prems by auto
  show ?case
  proof (cases r)
    case None
    obtain r' s2 calls where rh:
      "run_handlers log call name etype obj hs
         (log (LogDebug, ''Handler {} executed successfully for {}'',
               [PyStr (name h), PyStr etype]) s1) = (r', s2, calls)"
      by (metis prod_cases3)
    with ih [of "log (LogDebug, ''Handler {} executed successfully for {}'',
                      [PyStr (name h), PyStr etype]) s1"]
    have "r' = None" and "calls = map (\<lambda>h. (h, obj)) hs" by simp_all
    with c None rh show ?thesis by simp
  next
    case (Some e)
    with c Cons.prems(1) [of h s e] have exc: "isinstance_Exception e" by simp
    obtain r' s2 calls where rh:
      "run_handlers log call name etype obj hs
         (log (LogException, ''Error in handler {} for event {}: {}'',
               [PyStr (name h), PyStr etype, PyStr (exn_str e)]) s1) = (r', s2, calls)"
      by (metis prod_cases3)
    with ih [of "log (LogException, ''Error in handler {} for event {}: {}'',
                      [PyStr (name h), PyStr etype, PyStr (exn_str e)]) s1"]
    have "r' = None" and "calls = map (\<lambda>h. (h, obj)) hs" by simp_all
    with c Some exc rh show ?thesis by simp
  qed
qed


section \<open>The claims\<close>

text \<open>
  C1. When the verifier raises \<open>SignatureVerificationError\<close> for the payload, the header
  and the secret, \<open>process_webhook\<close> raises that same exception, calls no callback and
  returns no event; the handler object is as before but for one error record in its log,
  and its registry is unchanged. The exception is not an instance of \<open>ValueError\<close>, the
  class of a malformed payload. \<open>process_webhook_payload\<close> does the same.
\<close>

theorem C1_signature_mismatch_rejected:
  "(construct_event payload sig_header (webhook_secret self) = Inl e \<longrightarrow>
    isinstance_SignatureVerificationError e \<longrightarrow>
      process_webhook construct_event call name self payload sig_header =
        (Inl e,
         handler_log (LogError, ''Webhook signature verification failed: {}'',
                      [PyStr (exn_str e)]) self,
         [])
      \<and> event_handlers (handler_log (LogError, ''Webhook signature verification failed: {}'',
                      [PyStr (exn_str e)]) self) = event_handlers self
      \<and> \<not> isinstance_ValueError e)
   \<and>
   (construct_event' payload' sig_header' (Some secret) = Inl e' \<longrightarrow>
    isinstance_SignatureVerificationError e' \<longrightarrow>
      process_webhook_payload construct_event' call' name' mgr payload' sig_header' secret =
        (Inl e',
         manager_log (LogError, ''Webhook signature verification failed: {}'',
                      [PyStr (exn_str e')]) mgr,
         [])
      \<and> webhook_handlers (manager_log (LogError, ''Webhook signature verification failed: {}'',
                      [PyStr (exn_str e')]) mgr) = webhook_handlers mgr
      \<and> \<not> isinstance_ValueError e')"
proof (intro conjI impI)
  assume "construct_event payload sig_header (webhook_secret self) = Inl e"
    and "isinstance_SignatureVerificationError e"
  then show "process_webhook construct_event call name self payload sig_header =
        (Inl e,
         handler_log (LogError, ''Webhook signature verification failed: {}'',
                      [PyStr (exn_str e)]) self,
         [])"
    by (rule process_webhook_rejects_signature)
next
  assume "construct_event' payload' sig_header' (Some secret) = Inl e'"
    and "isinstance_SignatureVerificationError e'"
  then show "process_webhook_payload construct_event' call' name' mgr payload' sig_header' secret =
        (Inl e',
         manager_log (LogError, ''Webhook signature verification failed: {}'',
                      [PyStr (exn_str e')]) mgr,
         [])"
    by (rule process_webhook_payload_rejects_signature)
qed (simp_all add: signature_error_not_ValueError)

theorem C1_signature_mismatch_rejected_witness:
  "(process_webhook rejects returns id (add_event_handler test_handler ''*'' ''audit'')
       ''{}'' ''t=1,v1=00''
     = (Inl (Exn SignatureVerificationError
               ''No signatures found matching the expected signature''),
        handler_log (LogError, ''Webhook signature verification failed: {}'',
                     [PyStr (exn_str (Exn SignatureVerificationError
                        ''No signatures found matching the expected signature''))])
          (add_event_handler test_handler ''*'' ''audit''),
        [])
    \<and> event_handlers
         (handler_log (LogError, ''Webhook signature verification failed: {}'',
                     [PyStr (exn_str (Exn SignatureVerificationError
                        ''No signatures found matching the expected signature''))])
          (add_event_handler test_handler ''*'' ''audit''))
       = event_handlers (add_event_handler test_handler ''*'' ''audit'')
    \<and> \<not> isinstance_ValueError (Exn SignatureVerificationError
               ''No signatures found matching the expected signature''))
   \<and>
   (process_webhook_payload rejects returns id (add_webhook_handler test_manager ''*'' ''audit'')
       ''{}'' ''t=1,v1=00'' ''whsec_123''
     = (Inl (Exn SignatureVerificationError
               ''No signatures found matching the expected signature''),
        manager_log (LogError, ''Webhook signature verification failed: {}'',
                     [PyStr (exn_str (Exn SignatureVerificationError
                        ''No signatures found matching the expected signature''))])
          (add_webhook_handler test_manager ''*'' ''audit''),
        [])
    \<and> webhook_handlers
         (manager_log (LogError, ''Webhook signature verification failed: {}'',
                     [PyStr (exn_str (Exn SignatureVerificationError
                        ''No signatures found matching the expected signature''))])
          (add_webhook_handler test_manager ''*'' ''audit''))
       = webhook_handlers (add_webhook_handler test_manager ''*'' ''audit'')
    \<and> \<not> isinstance_ValueError (Exn SignatureVerificationError
               ''No signatures found matching the expected signature''))"
  (is "?H \<and> ?M")
proof
  show ?H
    by (rule C1_signature_mismatch_rejected [THEN conjunct1, rule_format])
       (simp_all add: rejects_def)
  show ?M
    by (rule C1_signature_mismatch_rejected [THEN conjunct2, rule_format])
       (simp_all add: rejects_def)
qed

text \<open>
  C2. For a delivery that is verified and parses into an event: when the registry maps the
  event's type to a callback, or does not but maps the wildcard \<open>*\<close> to one,
  \<open>process_webhook\<close> raises a \<open>TypeError\<close> and calls no callback, and so does
  \<open>process_webhook_payload\<close>. The wildcard append succeeds only when neither key is
  registered, and then the list the loop iterates is empty; on every input, no callback is
  called.
\<close>

theorem C2_registered_callback_raises_TypeError:
  "(construct_event payload sig_header (webhook_secret self) = Inr event \<longrightarrow>
    StripeEvent_init event = Inr event_model \<longrightarrow>
    (event_handlers self (event_type event_model) \<noteq> None \<or>
     event_handlers self (event_type event_model) = None \<and> event_handlers self ''*'' \<noteq> None) \<longrightarrow>
      (\<exists>m self'. process_webhook construct_event call name self payload sig_header =
         (Inl (Exn TypeError m), self', [])))
   \<and>
   (construct_event' payload' sig_header' (Some secret) = Inr event' \<longrightarrow>
    StripeEvent_init event' = Inr event_model' \<longrightarrow>
    (webhook_handlers mgr (event_type event_model') \<noteq> None \<or>
     webhook_handlers mgr (event_type event_model') = None \<and> webhook_handlers mgr ''*'' \<noteq> None) \<longrightarrow>
      (\<exists>m mgr'. process_webhook_payload construct_event' call' name' mgr payload' sig_header' secret =
         (Inl (Exn TypeError m), mgr', [])))
   \<and>
   (iadd (registry_get reg etype (HList [])) (registry_get reg ''*'' (HList [])) = Inr handlers \<longrightarrow>
      iter handlers = Inr [] \<and> reg etype = None \<and> reg ''*'' = None)
   \<and> snd (snd (process_webhook construct_event call name self payload sig_header)) = []
   \<and> snd (snd (process_webhook_payload construct_event' call' name' mgr payload' sig_header' secret)) = []"
proof (intro conjI impI)
  assume "construct_event payload sig_header (webhook_secret self) = Inr event"
    and "StripeEvent_init event = Inr event_model"
    and "event_handlers self (event_type event_model) \<noteq> None \<or>
     event_handlers self (event_type event_model) = None \<and> event_handlers self ''*'' \<noteq> None"
  then show "\<exists>m self'. process_webhook construct_event call name self payload sig_header =
         (Inl (Exn TypeError m), self', [])"
    by (intro process_webhook_TypeError) blast+
next
  assume "construct_event' payload' sig_header' (Some secret) = Inr event'"
    and "StripeEvent_init event' = Inr event_model'"
    and "webhook_handlers mgr (event_type event_model') \<noteq> None \<or>
     webhook_handlers mgr (event_type event_model') = None \<and> webhook_handlers mgr ''*'' \<noteq> None"
  then show "\<exists>m mgr'. process_webhook_payload construct_event' call' name' mgr payload' sig_header' secret =
         (Inl (Exn TypeError m), mgr', [])"
    by (intro process_webhook_payload_TypeError) blast+
next
  assume *: "iadd (registry_get reg etype (HList [])) (registry_get reg ''*'' (HList [])) = Inr handlers"
  from iadd_registry_get_Inr [OF *]
  show "iter handlers = Inr []" and "reg etype = None" and "reg ''*'' = None" by simp_all
qed (simp_all add: process_webhook_calls process_webhook_payload_calls)

theorem C2_registered_callback_raises_TypeError_witness:
  "(\<exists>m self'.
      process_webhook (accepts test_event) returns id
        (add_event_handler test_handler ''payment_intent.succeeded'' ''on_paid'')
        ''{}'' ''t=1,v1=00''
      = (Inl (Exn TypeError m), self', []))
   \<and> (\<exists>m mgr'.
      process_webhook_payload (accepts test_event) returns id
        (add_webhook_handler test_manager ''*'' ''audit'')
        ''{}'' ''t=1,v1=00'' ''whsec_123''
      = (Inl (Exn TypeError m), mgr', []))"
  (is "?H \<and> ?M")
proof
  have init: "StripeEvent_init test_event = Inr test_event_model"
    by (simp add: StripeEvent_init_def test_event_def test_event_model_def)
  have acc: "accepts test_event p s k = Inr test_event" for p s k
    by (simp add: accepts_def)
  show ?H
    by (rule C2_registered_callback_raises_TypeError [THEN conjunct1, rule_format,
          where event = test_event and event_model = test_event_model])
       (simp_all add: acc init add_event_handler_def test_event_model_def)
  show ?M
    by (rule C2_registered_callback_raises_TypeError [THEN conjunct2, THEN conjunct1, rule_format,
          where event' = test_event and event_model' = test_event_model])
       (simp_all add: acc init add_webhook_handler_def test_event_model_def test_manager_def
          StripeManager_init_def)
qed

text \<open>
  C3. With one callback registered for \<open>payment_intent.succeeded\<close>, the delivery of a
  verified, well-formed event of that type raises a \<open>TypeError\<close> at the wildcard append
  and calls nothing, where the claim has the callback called once with the event object.
  Registering a second callback under the same name does replace the first.
\<close>

theorem C3_registered_type_delivery:
  "fst (process_webhook (accepts test_event) returns id
          (add_event_handler test_handler ''payment_intent.succeeded'' ''my_handler'')
          ''{}'' ''t=1,v1=00'')
     = Inl (Exn TypeError ''unsupported operand type(s) for +=: function and list'')
   \<and> snd (snd (process_webhook (accepts test_event) returns id
          (add_event_handler test_handler ''payment_intent.succeeded'' ''my_handler'')
          ''{}'' ''t=1,v1=00'')) = []
   \<and> StripeEvent_init test_event = Inr test_event_model
   \<and> event_handlers
         (add_event_handler
            (add_event_handler test_handler ''payment_intent.succeeded'' ''my_handler'')
            ''payment_intent.succeeded'' ''other_handler'')
       = event_handlers
           (add_event_handler test_handler ''payment_intent.succeeded'' ''other_handler'')"
  by (simp add: process_webhook_def accepts_def test_handler_def StripeHandler_init_def
      test_event_def test_event_model_def
      StripeEvent_init_def dict_getitem_def registry_get_def add_event_handler_def
      handler_log_def Let_def)

text \<open>
  C4. With a callback registered for the event's type and another for the wildcard \<open>*\<close>,
  and also with the wildcard callback alone, the delivery of a verified, well-formed event
  raises a \<open>TypeError\<close> and calls nothing, where the claim has the callback of the type
  called first and the wildcard callback after it.
\<close>

theorem C4_wildcard_delivery:
  "process_webhook (accepts test_event) returns id
     (add_event_handler
        (add_event_handler test_handler ''payment_intent.succeeded'' ''my_handler'')
        ''*'' ''audit'')
     ''{}'' ''t=1,v1=00''
   = (Inl (Exn TypeError ''unsupported operand type(s) for +=: function and function''),
      handler_log (LogInfo, ''Received Stripe event: {} [{}]'',
                   [PyStr ''payment_intent.succeeded'', PyStr ''evt_123''])
        (add_event_handler
           (add_event_handler test_handler ''payment_intent.succeeded'' ''my_handler'')
           ''*'' ''audit''),
      [])
   \<and> process_webhook (accepts test_event) returns id
       (add_event_handler test_handler ''*'' ''audit'') ''{}'' ''t=1,v1=00''
   = (Inl (Exn TypeError ''function object is not iterable''),
      handler_log (LogWarning, ''No handlers registered for event: {}'',
                   [PyStr ''payment_intent.succeeded''])
        (handler_log (LogInfo, ''Received Stripe event: {} [{}]'',
                      [PyStr ''payment_intent.succeeded'', PyStr ''evt_123''])
           (add_event_handler test_handler ''*'' ''audit'')),
      [])"
  by (simp add: process_webhook_def accepts_def test_handler_def StripeHandler_init_def
      test_event_def
      StripeEvent_init_def dict_getitem_def registry_get_def add_event_handler_def
      handler_log_def Let_def)

text \<open>
  C5. With a callback that raises registered for the event's type and a second callback
  registered for the wildcard, the delivery of a verified, well-formed event raises a
  \<open>TypeError\<close> and calls neither, where the claim has the second callback called and the
  event returned. The loop, run on the two callbacks, would call both and raise nothing.
\<close>

theorem C5_raising_callback_delivery:
  "fst (process_webhook (accepts test_event) (raises_in [''failing'']) id
          (add_event_handler
             (add_event_handler test_handler ''payment_intent.succeeded'' ''failing'')
             ''*'' ''audit'')
          ''{}'' ''t=1,v1=00'')
     = Inl (Exn TypeError ''unsupported operand type(s) for +=: function and function'')
   \<and> snd (snd (process_webhook (accepts test_event) (raises_in [''failing'']) id
          (add_event_handler
             (add_event_handler test_handler ''payment_intent.succeeded'' ''failing'')
             ''*'' ''audit'')
          ''{}'' ''t=1,v1=00'')) = []
   \<and> fst (run_handlers handler_log (raises_in [''failing'']) id ''payment_intent.succeeded''
             (event_object test_event_model) [''failing'', ''audit''] test_handler) = None
   \<and> snd (snd (run_handlers handler_log (raises_in [''failing'']) id ''payment_intent.succeeded''
             (event_object test_event_model) [''failing'', ''audit''] test_handler))
     = [(''failing'', PyDict [(''id'', PyStr ''pi_123'')]),
        (''audit'', PyDict [(''id'', PyStr ''pi_123'')])]"
  by (simp add: process_webhook_def accepts_def test_handler_def StripeHandler_init_def
      test_event_def test_event_model_def
      StripeEvent_init_def dict_getitem_def registry_get_def add_event_handler_def
      handler_log_def Let_def raises_in_def event_object_def dict_get_def)

text \<open>
  C6. A verified payload without the field \<open>id\<close>, or without the field \<open>type\<close>, makes
  \<open>process_webhook\<close> raise a \<open>KeyError\<close>, which is not an instance of \<open>ValueError\<close>: the
  log line of the \<^verbatim>\<open>try\<close> block subscripts the event before the event is validated. A
  verified payload without the field \<open>data\<close> alone raises pydantic's \<open>ValidationError\<close>,
  an instance of \<open>ValueError\<close>, as the claim has it. No callback is called in any of the
  three deliveries.
\<close>

theorem C6_missing_required_field:
  "process_webhook
     (accepts [(''type'', PyStr ''payment_intent.succeeded''), (''data'', PyDict [])])
     returns id (add_event_handler test_handler ''*'' ''audit'') ''{}'' ''t=1,v1=00''
   = (Inl (Exn KeyError ''id''), add_event_handler test_handler ''*'' ''audit'', [])
   \<and> process_webhook
       (accepts [(''id'', PyStr ''evt_123''), (''data'', PyDict [])])
       returns id (add_event_handler test_handler ''*'' ''audit'') ''{}'' ''t=1,v1=00''
   = (Inl (Exn KeyError ''type''), add_event_handler test_handler ''*'' ''audit'', [])
   \<and> \<not> isinstance_ValueError (Exn KeyError ''id'')
   \<and> \<not> isinstance_ValueError (Exn KeyError ''type'')
   \<and> fst (process_webhook
       (accepts [(''id'', PyStr ''evt_123''), (''type'', PyStr ''payment_intent.succeeded'')])
       returns id (add_event_handler test_handler ''*'' ''audit'') ''{}'' ''t=1,v1=00'')
     = Inl (Exn ValidationError ''StripeEvent'')
   \<and> isinstance_ValueError (Exn ValidationError ''StripeEvent'')"
  by (simp add: process_webhook_def accepts_def test_handler_def StripeHandler_init_def
      StripeEvent_init_def dict_getitem_def)

text \<open>
  C7. A verified delivery that parses into an event whose type is not registered, with no
  wildcard registered either, completes: \<open>process_webhook\<close> returns the event, calls no
  callback and leaves the handler object as it was but for the records of the delivery and
  of the warning in its log. \<open>process_webhook_payload\<close> does the same.
\<close>

theorem C7_unregistered_type_completes:
  "(construct_event payload sig_header (webhook_secret self) = Inr event \<longrightarrow>
    StripeEvent_init event = Inr event_model \<longrightarrow>
    event_handlers self (event_type event_model) = None \<longrightarrow>
    event_handlers self ''*'' = None \<longrightarrow>
      process_webhook construct_event call name self payload sig_header =
        (Inr event_model,
         handler_log (LogWarning, ''No handlers registered for event: {}'',
                      [PyStr (event_type event_model)])
           (handler_log (LogInfo, ''Received Stripe event: {} [{}]'',
                         [PyStr (event_type event_model), PyStr (event_id event_model)]) self),
         []))
   \<and>
   (construct_event' payload' sig_header' (Some secret) = Inr event' \<longrightarrow>
    StripeEvent_init event' = Inr event_model' \<longrightarrow>
    webhook_handlers mgr (event_type event_model') = None \<longrightarrow>
    webhook_handlers mgr ''*'' = None \<longrightarrow>
      process_webhook_payload construct_event' call' name' mgr payload' sig_header' secret =
        (Inr event_model',
         manager_log (LogWarning, ''No handlers registered for event: {}'',
                      [PyStr (event_type event_model')])
           (manager_log (LogInfo, ''Received Stripe event: {} [{}]'',
                         [PyStr (event_type event_model'), PyStr (event_id event_model')]) mgr),
         []))"
  by (intro conjI impI process_webhook_no_handlers process_webhook_payload_no_handlers)

theorem C7_unregistered_type_completes_witness:
  "process_webhook (accepts test_event) returns id test_handler ''{}'' ''t=1,v1=00'' =
     (Inr test_event_model,
      handler_log (LogWarning, ''No handlers registered for event: {}'',
                   [PyStr (event_type test_event_model)])
        (handler_log (LogInfo, ''Received Stripe event: {} [{}]'',
                      [PyStr (event_type test_event_model), PyStr (event_id test_event_model)])
           test_handler),
      [])
   \<and>
   process_webhook_payload (accepts test_event) returns id test_manager ''{}'' ''t=1,v1=00''
       ''whsec_123'' =
     (Inr test_event_model,
      manager_log (LogWarning, ''No handlers registered for event: {}'',
                   [PyStr (event_type test_event_model)])
        (manager_log (LogInfo, ''Received Stripe event: {} [{}]'',
                      [PyStr (event_type test_event_model), PyStr (event_id test_event_model)])
           test_manager),
      [])"
  (is "?H \<and> ?M")
proof
  have init: "StripeEvent_init test_event = Inr test_event_model"
    by (simp add: StripeEvent_init_def test_event_def test_event_model_def)
  have acc: "accepts test_event p s k = Inr test_event" for p s k
    by (simp add: accepts_def)
  show ?H
    by (rule C7_unregistered_type_completes [THEN conjunct1, rule_format,
          where event = test_event])
       (simp_all add: acc init test_handler_def StripeHandler_init_def)
  show ?M
    by (rule C7_unregistered_type_completes [THEN conjunct2, rule_format,
          where event' = test_event])
       (simp_all add: acc init test_manager_def StripeManager_init_def)
qed

text \<open>
  C8. \<open>event_object\<close> is the value of \<open>data["object"]\<close> when \<open>data\<close> has the key
  \<open>object\<close>, and the empty dictionary when it has not. An event constructed with
  \<open>data = {"object": {"id": "pi_1"}}\<close> has the event object \<open>{"id": "pi_1"}\<close>, and one
  constructed with \<open>data = {}\<close> has the event object \<open>{}\<close>.
\<close>

theorem C8_event_object:
  "(map_of (event_data e) ''object'' = Some v \<longrightarrow> event_object e = v)
   \<and> (map_of (event_data e) ''object'' = None \<longrightarrow> event_object e = PyDict [])
   \<and> (\<exists>e1. StripeEvent_init
               [(''id'', PyStr ''evt_1''), (''type'', PyStr ''payment_intent.succeeded''),
                (''data'', PyDict [(''object'', PyDict [(''id'', PyStr ''pi_1'')])])] = Inr e1
            \<and> event_object e1 = PyDict [(''id'', PyStr ''pi_1'')])
   \<and> (\<exists>e2. StripeEvent_init
               [(''id'', PyStr ''evt_1''), (''type'', PyStr ''payment_intent.succeeded''),
                (''data'', PyDict [])] = Inr e2
            \<and> event_object e2 = PyDict [])"
  by (simp add: event_object_def dict_get_def StripeEvent_init_def)

theorem C8_event_object_witness:
  "event_object test_event_model = PyDict [(''id'', PyStr ''pi_123'')]
   \<and> event_object (test_event_model\<lparr>event_data := []\<rparr>) = PyDict []"
  (is "?P \<and> ?A")
proof
  show ?P
    by (rule C8_event_object [THEN conjunct1, rule_format])
       (simp add: test_event_model_def)
  show ?A
    by (rule C8_event_object [THEN conjunct2, THEN conjunct1, rule_format])
       (simp add: test_event_model_def)
qed

text \<open>
  C9. Unregistering an event name that is not registered changes nothing in a
  \<open>StripeHandler\<close> and leaves the registry of a \<open>StripeManager\<close> as it was (the manager logs
  a warning); neither raises. Unregistering a registered name removes that entry and no
  other.
\<close>

theorem C9_unregister:
  "(event_handlers self event_name = None \<longrightarrow> remove_event_handler self event_name = self)
   \<and> (event_handlers self event_name \<noteq> None \<longrightarrow>
        event_handlers (remove_event_handler self event_name) event_name = None
        \<and> (\<forall>k. k \<noteq> event_name \<longrightarrow>
              event_handlers (remove_event_handler self event_name) k = event_handlers self k))
   \<and> (webhook_handlers mgr event_name' = None \<longrightarrow>
        webhook_handlers (remove_webhook_handler mgr event_name') = webhook_handlers mgr)
   \<and> (webhook_handlers mgr event_name' \<noteq> None \<longrightarrow>
        webhook_handlers (remove_webhook_handler mgr event_name') event_name' = None
        \<and> (\<forall>k. k \<noteq> event_name' \<longrightarrow>
              webhook_handlers (remove_webhook_handler mgr event_name') k = webhook_handlers mgr k))"
  by (simp add: remove_event_handler_def remove_webhook_handler_def)

theorem C9_unregister_witness:
  "remove_event_handler test_handler ''nonexistent.event'' = test_handler
   \<and> event_handlers
       (remove_event_handler
          (add_event_handler
             (add_event_handler test_handler ''payment_intent.succeeded'' ''my_handler'')
             ''*'' ''audit'')
          ''payment_intent.succeeded'') ''payment_intent.succeeded'' = None
   \<and> event_handlers
       (remove_event_handler
          (add_event_handler
             (add_event_handler test_handler ''payment_intent.succeeded'' ''my_handler'')
             ''*'' ''audit'')
          ''payment_intent.succeeded'') ''*'' = Some ''audit''
   \<and> webhook_handlers (remove_webhook_handler test_manager ''nonexistent.event'')
       = webhook_handlers test_manager"
  (is "?A \<and> ?B \<and> ?C \<and> ?D")
proof (intro conjI)
  show ?A
    by (rule C9_unregister [THEN conjunct1, rule_format])
       (simp add: test_handler_def StripeHandler_init_def)
  have registered:
    "event_handlers
       (add_event_handler
          (add_event_handler test_handler ''payment_intent.succeeded'' ''my_handler'')
          ''*'' ''audit'')
       ''payment_intent.succeeded'' \<noteq> None"
    by (simp add: add_event_handler_def)
  note removed = C9_unregister [THEN conjunct2, THEN conjunct1, rule_format, OF registered]
  from removed show ?B
    by (rule conjunct1)
  from removed have
    "event_handlers
       (remove_event_handler
          (add_event_handler
             (add_event_handler test_handler ''payment_intent.succeeded'' ''my_handler'')
             ''*'' ''audit'')
          ''payment_intent.succeeded'') ''*''
     = event_handlers
         (add_event_handler
            (add_event_handler test_handler ''payment_intent.succeeded'' ''my_handler'')
            ''*'' ''audit'') ''*''"
    by simp
  then show ?C
    by (simp add: add_event_handler_def)
  show ?D
    by (rule C9_unregister [THEN conjunct2, THEN conjunct2, THEN conjunct1, rule_format])
       (simp add: test_manager_def StripeManager_init_def)
qed

text \<open>
  C10. Dispatch never changes the handler registry: whatever the verifier decides, whatever
  the registry holds and whatever the registered callbacks would do to the dispatching
  object when called, the registry after \<open>process_webhook\<close> (and after
  \<open>process_webhook_payload\<close>) is the registry before it, whether the call returns an event
  or raises.
\<close>

theorem C10_dispatch_leaves_registry:
  "event_handlers (fst (snd (process_webhook construct_event call name self payload sig_header)))
     = event_handlers self
   \<and> webhook_handlers
       (fst (snd (process_webhook_payload construct_event' call' name' mgr payload' sig_header'
                    secret)))
     = webhook_handlers mgr"
  by (simp add: process_webhook_registry process_webhook_payload_registry)

end
